theory Spec2Isabelle
  imports Main "HOL-Library.Sublist"
begin

unbundle bit_operations_syntax

section \<open>Errors and strings\<close>

text \<open>
  The exceptions of \<^verbatim>\<open>manager.py\<close> and \<^verbatim>\<open>retrying_lock.py\<close>, each carrying its
  message. \<open>PuppetError\<close> is the base class; the subclasses are separate constructors.
\<close>

datatype error =
    PuppetError string
  | SudoError string
  | PuppetInternalLogicError string
  | PuppetParamsError string
  | RuntimeError string
  | NotImplementedError
  | KeyError string
  | ValueError string
  | LockfileError string

definition nl :: string where
  "nl = [CHR 0x0A]"

definition sq :: string where
  "sq = [CHR 0x27]"

definition dq :: string where
  "dq = [CHR 0x22]"

text \<open>Python's \<^verbatim>\<open>sep.join(xs)\<close>.\<close>

fun join :: "string \<Rightarrow> string list \<Rightarrow> string" where
  "join sep [] = []"
| "join sep [x] = x"
| "join sep (x # y # ys) = x @ sep @ join sep (y # ys)"

text \<open>Python's \<^verbatim>\<open>str(n)\<close> for a non-negative integer.\<close>

definition digit :: "nat \<Rightarrow> char" where
  "digit d = ''0123456789'' ! d"

fun str_nat :: "nat \<Rightarrow> string" where
  "str_nat n = (if n < 10 then [digit n] else str_nat (n div 10) @ [digit (n mod 10)])"

declare str_nat.simps [simp del]

text \<open>
  \<^verbatim>\<open>os.path.join(a, b)\<close> on POSIX: an absolute second component replaces the first;
  otherwise the components are joined by exactly one slash.
\<close>

definition os_path_join :: "string \<Rightarrow> string \<Rightarrow> string" where
  "os_path_join a b =
     (case b of
        c # _ \<Rightarrow>
          if c = CHR ''/'' then b
          else if a = [] \<or> last a = CHR ''/'' then a @ b
          else a @ ''/'' @ b
      | [] \<Rightarrow> if a = [] \<or> last a = CHR ''/'' then a else a @ ''/'')"

text \<open>
  \<^verbatim>\<open>quote_shell_arg\<close>: \<^verbatim>\<open>"'" + s.replace("'", "'\"'\"'") + "'"\<close>.
  The pattern replaced is a single character, so \<^verbatim>\<open>replace\<close> acts on each character.
\<close>

definition replace_char :: "char \<Rightarrow> string \<Rightarrow> string \<Rightarrow> string" where
  "replace_char c r s = concat (map (\<lambda>x. if x = c then r else [x]) s)"

definition quote_shell_arg :: "string \<Rightarrow> string" where
  "quote_shell_arg s = sq @ replace_char (CHR 0x27) (sq @ dq @ sq @ dq @ sq) s @ sq"

section \<open>The generated run script\<close>

text \<open>
  \<^verbatim>\<open>PuppetRunner.run\<close> writes a bash script. \<open>run_script_text\<close> is the text exactly as
  the source concatenates it; \<open>run_script_stmts\<close> is the same script, statement by
  statement, and \<open>exec_sh\<close> is what bash does with those statements: the exit status
  of the agent command is captured in \<^verbatim>\<open>e\<close> (the \<^verbatim>\<open>||\<close> keeps \<^verbatim>\<open>-e\<close> from
  aborting), and the script's own exit status is computed from it.
\<close>

definition render_environ :: "(string \<times> string) list \<Rightarrow> string" where
  "render_environ environ =
     concat (map (\<lambda>(k, v). ''export '' @ k @ ''='' @ sq @ v @ sq @ nl) environ)"

definition run_script_text :: "string \<Rightarrow> string \<Rightarrow> (string \<times> string) list \<Rightarrow> string \<Rightarrow> string" where
  "run_script_text local_custom_facts facts_file_name environ cmd =
     ''#!/bin/bash -e'' @ nl @
     ''export FACTERLIB='' @ local_custom_facts @ nl @
     ''export CLOUDIFY_FACTS_FILE='' @ facts_file_name @ nl @ render_environ environ @
     ''e=0'' @ nl @
     cmd @ '' || e=$'' @ [CHR 0x3F] @ nl @
     ''echo Exit code: $e'' @ nl @
     ''if [ $e -eq 1 ];then exit 1;fi'' @ nl @
     ''if [ $(($e & 4)) -eq 4 ];then exit 4;fi'' @ nl @
     ''exit 0'' @ nl"

datatype sh_stmt =
    Shebang
  | Export string string
  | SetE nat
  | RunOrSetE string
  | EchoExitCode
  | IfEqExit nat nat
  | IfAndEqExit nat nat nat
  | ExitWith nat

fun render_stmt :: "sh_stmt \<Rightarrow> string" where
  "render_stmt Shebang = ''#!/bin/bash -e''"
| "render_stmt (Export k v) = ''export '' @ k @ ''='' @ v"
| "render_stmt (SetE n) = ''e='' @ str_nat n"
| "render_stmt (RunOrSetE cmd) = cmd @ '' || e=$'' @ [CHR 0x3F]"
| "render_stmt EchoExitCode = ''echo Exit code: $e''"
| "render_stmt (IfEqExit n k) =
     ''if [ $e -eq '' @ str_nat n @ '' ];then exit '' @ str_nat k @ '';fi''"
| "render_stmt (IfAndEqExit m n k) =
     ''if [ $(($e & '' @ str_nat m @ '')) -eq '' @ str_nat n @ '' ];then exit '' @ str_nat k @ '';fi''"
| "render_stmt (ExitWith k) = ''exit '' @ str_nat k"

definition render_script :: "sh_stmt list \<Rightarrow> string" where
  "render_script stmts = concat (map (\<lambda>s. render_stmt s @ nl) stmts)"

definition run_script_stmts :: "string \<Rightarrow> string \<Rightarrow> (string \<times> string) list \<Rightarrow> string \<Rightarrow> sh_stmt list" where
  "run_script_stmts local_custom_facts facts_file_name environ cmd =
     [Shebang,
      Export ''FACTERLIB'' local_custom_facts,
      Export ''CLOUDIFY_FACTS_FILE'' facts_file_name] @
     map (\<lambda>(k, v). Export k (sq @ v @ sq)) environ @
     [SetE 0,
      RunOrSetE cmd,
      EchoExitCode,
      IfEqExit 1 1,
      IfAndEqExit 4 4 4,
      ExitWith 0]"

text \<open>
  \<open>exec_sh status stmts e\<close>: the exit status of the script, where \<open>status c\<close> is the
  exit status of running the command line \<open>c\<close> and \<open>e\<close> the current value of the shell
  variable \<^verbatim>\<open>e\<close>. A script that runs off its end exits 0.
\<close>

fun exec_sh :: "(string \<Rightarrow> nat) \<Rightarrow> sh_stmt list \<Rightarrow> nat \<Rightarrow> nat" where
  "exec_sh status [] e = 0"
| "exec_sh status (Shebang # rest) e = exec_sh status rest e"
| "exec_sh status (Export k v # rest) e = exec_sh status rest e"
| "exec_sh status (SetE n # rest) e = exec_sh status rest n"
| "exec_sh status (RunOrSetE cmd # rest) e =
     exec_sh status rest (if status cmd = 0 then e else status cmd)"
| "exec_sh status (EchoExitCode # rest) e = exec_sh status rest e"
| "exec_sh status (IfEqExit n k # rest) e =
     (if e = n then k else exec_sh status rest e)"
| "exec_sh status (IfAndEqExit m n k # rest) e =
     (if e AND m = n then k else exec_sh status rest e)"
| "exec_sh status (ExitWith k # rest) e = k"

section \<open>RetryingLock\<close>

text \<open>
  \<^verbatim>\<open>retrying_lock.py\<close>. The handle is the object's fields; the file lock of the
  \<^verbatim>\<open>lockfile\<close> library is the environment: \<open>acq k\<close> is the outcome of the
  \<open>k\<close>-th call of \<^verbatim>\<open>acquire\<close> on this host (counted in \<open>attempts\<close>), and the world
  records whether the file lock is held, how often \<^verbatim>\<open>release\<close> was called, and what
  was logged. An exception of \<^verbatim>\<open>acquire\<close> other than \<^verbatim>\<open>LockTimeout\<close> is not
  caught by the loop and propagates.
\<close>

datatype acquire_outcome = Acquired | LockTimeout | AcquireFailed string

datatype log_msg =
    UsingLockFile string
  | CouldNotLock string int
  | AcquiredLock string
  | ReleasedLock string

record lock_handle =
  path :: string
  retries :: int
  sleep :: int
  acquired :: bool

record lock_world =
  attempts :: nat
  held :: bool
  releases :: nat
  logged :: "log_msg list"

definition RetryingLock_init :: "string option \<Rightarrow> string \<Rightarrow> int \<Rightarrow> int \<Rightarrow> lock_handle" where
  "RetryingLock_init tmpdir_var lock_name r s =
     (let tmp_dir = (case tmpdir_var of None \<Rightarrow> ''/tmp'' | Some d \<Rightarrow> d)
      in \<lparr>path = os_path_join tmp_dir lock_name, retries = r, sleep = s, acquired = False\<rparr>)"

definition lock_failure_message :: "string \<Rightarrow> string" where
  "lock_failure_message p = ''Failed to lock the file '' @ sq @ p @ sq @ ''.''"

fun acquire_loop ::
  "(nat \<Rightarrow> acquire_outcome) \<Rightarrow> nat \<Rightarrow> lock_handle \<Rightarrow> lock_world
     \<Rightarrow> (error + unit) \<times> lock_handle \<times> lock_world" where
  "acquire_loop acq 0 h w = (Inl (RuntimeError (lock_failure_message (path h))), h, w)"
| "acquire_loop acq (Suc n) h w =
     (case acq (attempts w) of
        LockTimeout \<Rightarrow>
          acquire_loop acq n h
            (w\<lparr>attempts := Suc (attempts w),
               logged := logged w @ [CouldNotLock (path h) (sleep h)]\<rparr>)
      | Acquired \<Rightarrow>
          (Inr (), h\<lparr>acquired := True\<rparr>,
           w\<lparr>attempts := Suc (attempts w), held := True,
             logged := logged w @ [AcquiredLock (path h)]\<rparr>)
      | AcquireFailed m \<Rightarrow> (Inl (LockfileError m), h, w\<lparr>attempts := Suc (attempts w)\<rparr>))"

definition RetryingLock_enter ::
  "(nat \<Rightarrow> acquire_outcome) \<Rightarrow> lock_handle \<Rightarrow> lock_world
     \<Rightarrow> (error + unit) \<times> lock_handle \<times> lock_world" where
  "RetryingLock_enter acq h w =
     acquire_loop acq (nat (retries h)) h (w\<lparr>logged := logged w @ [UsingLockFile (path h)]\<rparr>)"

definition RetryingLock_exit :: "lock_handle \<Rightarrow> lock_world \<Rightarrow> lock_handle \<times> lock_world" where
  "RetryingLock_exit h w =
     (if \<not> acquired h then (h, w)
      else (h\<lparr>acquired := False\<rparr>,
            w\<lparr>held := False, releases := Suc (releases w),
              logged := logged w @ [ReleasedLock (path h)]\<rparr>))"

definition with_lock ::
  "(nat \<Rightarrow> acquire_outcome) \<Rightarrow> lock_handle \<Rightarrow> ('s \<Rightarrow> (error + 'a) \<times> 's) \<Rightarrow> lock_world \<Rightarrow> 's
     \<Rightarrow> (error + 'a) \<times> lock_handle \<times> lock_world \<times> 's" where
  "with_lock acq h body w s =
     (case RetryingLock_enter acq h w of
        (Inl e, h1, w1) \<Rightarrow> (Inl e, h1, w1, s)
      | (Inr u, h1, w1) \<Rightarrow>
          (case body s of
             (r, s') \<Rightarrow>
               (case RetryingLock_exit h1 w1 of (h2, w2) \<Rightarrow> (r, h2, w2, s'))))"

text \<open>The world before any lock call, and a guarded body that raises.\<close>

definition fresh_world :: lock_world where
  "fresh_world = \<lparr>attempts = 0, held = False, releases = 0, logged = []\<rparr>"

definition raising_body :: "nat \<Rightarrow> (error + unit) \<times> nat" where
  "raising_body n = (Inl (PuppetError ''Repo package is not available''), Suc n)"

section \<open>Environment names\<close>

text \<open>
  \<^verbatim>\<open>PuppetRunner.set_environment\<close>: \<^verbatim>\<open>re.sub('[- .]', '_', e)\<close> replaces each of
  the three characters, then \<^verbatim>\<open>PUPPET_ENV_RE\<close> (\<^verbatim>\<open>\A[a-z0-9]+\Z\<close>) must match the
  whole result. The function returns the new value of \<^verbatim>\<open>self.environment\<close>.
\<close>

definition re_sub_env :: "string \<Rightarrow> string" where
  "re_sub_env e = map (\<lambda>c. if c \<in> set ''- .'' then CHR ''_'' else c) e"

definition env_char :: "char \<Rightarrow> bool" where
  "env_char c =
     ((of_char (CHR ''a'') \<le> (of_char c :: nat) \<and> (of_char c :: nat) \<le> of_char (CHR ''z''))
      \<or> (of_char (CHR ''0'') \<le> (of_char c :: nat) \<and> (of_char c :: nat) \<le> of_char (CHR ''9'')))"

definition PUPPET_ENV_RE_match :: "string \<Rightarrow> bool" where
  "PUPPET_ENV_RE_match s = (s \<noteq> [] \<and> list_all env_char s)"

definition set_environment :: "string \<Rightarrow> error + string" where
  "set_environment e =
     (let env = re_sub_env e in
      if \<not> PUPPET_ENV_RE_match env
      then Inl (PuppetParamsError
             (''puppet_config.environment must contain only alphanumeric characters, you gave ''
              @ sq @ env @ sq))
      else Inr env)"

section \<open>Configuration, context and host\<close>

text \<open>
  The values of a blueprint are JSON-like. \<open>puppet_config\<close> holds the keys of
  \<^verbatim>\<open>ctx.properties['puppet_config']\<close> that the code reads, each absent (\<open>None\<close>) or
  present; \<^verbatim>\<open>repos\<close> maps a package kind (\<^verbatim>\<open>deb\<close>) to a map from distribution
  version to URL.
\<close>

datatype json =
    JNull
  | JBool bool
  | JNum int
  | JStr string
  | JList "json list"
  | JObj "(string \<times> json) list"

record puppet_config =
  cfg_environment :: "string option"
  cfg_server :: "string option"
  cfg_node_name_prefix :: "string option"
  cfg_node_name_suffix :: "string option"
  cfg_facts :: "(string \<rightharpoonup> json) option"
  cfg_modules :: "json option"
  cfg_execute :: "string option"
  cfg_manifest :: "string option"
  cfg_repos :: "(string \<rightharpoonup> (string \<rightharpoonup> string)) option"

record related_node =
  rel_node_id :: string
  rel_properties :: json
  rel_runtime_properties :: json
  rel_host_ip :: "string option"

text \<open>
  The workflow context: \<open>capabilities = None\<close> stands for the \<^verbatim>\<open>AttributeError\<close> and
  \<open>host_ip = None\<close> for the \<^verbatim>\<open>NonRecoverableError\<close> that the accessors tolerate.
\<close>

record ctx =
  node_id :: string
  node_name :: string
  blueprint_id :: string
  deployment_id :: string
  properties :: json
  puppet_config :: puppet_config
  runtime_properties :: json
  capabilities :: "json option"
  host_ip :: "string option"
  related :: "related_node option"

record datetime =
  dt_year :: nat
  dt_month :: nat
  dt_day :: nat
  dt_hour :: nat
  dt_minute :: nat

text \<open>
  What the code reads from the machine it runs on: the distribution triple of
  \<^verbatim>\<open>platform.linux_distribution()\<close>, the expanded \<^verbatim>\<open>~/cloudify/puppet\<close>, the clock, the
  process id, the directory and random parts of temporary file names, the exit
  status of each command run through sudo and of the command line inside the run
  script, and the outcome of the steps whose bodies are outside this model
  (\<^verbatim>\<open>install()\<close> and the standalone \<^verbatim>\<open>configure()\<close>).
\<close>

record host =
  linux_distribution :: "string \<times> string \<times> string"
  local_repo :: string
  utcnow :: datetime
  pid :: nat
  tmp_dir :: string
  tmp_random :: "nat \<Rightarrow> string"
  sudo_status :: "string list \<Rightarrow> nat"
  agent_status :: "string \<Rightarrow> nat"
  install_error :: "error option"
  standalone_configure_error :: "error option"

datatype runner_class = PuppetAgentRunner | PuppetStandaloneRunner

datatype installer_class = PuppetDebianInstaller | PuppetRHELInstaller

record manager =
  runner :: runner_class
  installer :: installer_class
  props :: puppet_config
  environment :: "string option"
  mctx :: ctx

definition DIRS_local_custom_facts :: string where
  "DIRS_local_custom_facts = ''/opt/cloudify/puppet/facts''"

section \<open>Strategy selection and construction\<close>

text \<open>\<^verbatim>\<open>str.lower()\<close> on ASCII text.\<close>

definition lower_char :: "char \<Rightarrow> char" where
  "lower_char c =
     (case map_of (zip ''ABCDEFGHIJKLMNOPQRSTUVWXYZ'' ''abcdefghijklmnopqrstuvwxyz'') c of
        Some l \<Rightarrow> l
      | None \<Rightarrow> c)"

definition lower :: "string \<Rightarrow> string" where
  "lower s = map lower_char s"

fun installer_handles :: "string \<times> string \<times> string \<Rightarrow> installer_class \<Rightarrow> bool" where
  "installer_handles (d0, d1, d2) PuppetDebianInstaller =
     (lower d0 \<in> set [''debian'', ''ubuntu'', ''mint''])"
| "installer_handles (d0, d1, d2) PuppetRHELInstaller =
     (d0 \<in> set [''redhat'', ''centos'', ''fedora''])"

definition get_installer_class :: "string \<times> string \<times> string \<Rightarrow> error + installer_class" where
  "get_installer_class distro =
     (case filter (installer_handles distro) [PuppetDebianInstaller, PuppetRHELInstaller] of
        [c] \<Rightarrow> Inr c
      | _ \<Rightarrow> Inl (PuppetInternalLogicError ''Failed to find correct PuppetInstaller''))"

definition get_runner_class :: "ctx \<Rightarrow> runner_class" where
  "get_runner_class c =
     (if cfg_server (puppet_config c) \<noteq> None then PuppetAgentRunner else PuppetStandaloneRunner)"

fun is_list :: "json \<Rightarrow> bool" where
  "is_list (JList xs) = True"
| "is_list j = False"

text \<open>\<open>process_properties\<close> returns the value of \<^verbatim>\<open>self.environment\<close> it leaves.\<close>

fun process_properties :: "runner_class \<Rightarrow> puppet_config \<Rightarrow> error + string option" where
  "process_properties PuppetAgentRunner p =
     (case cfg_environment p of
        None \<Rightarrow> Inl (PuppetParamsError ''puppet_config.environment is missing'')
      | Some e \<Rightarrow>
          (case set_environment e of Inl err \<Rightarrow> Inl err | Inr env \<Rightarrow> Inr (Some env)))"
| "process_properties PuppetStandaloneRunner p =
     (case (case cfg_environment p of
              None \<Rightarrow> Inr None
            | Some e \<Rightarrow>
                (case set_environment e of Inl err \<Rightarrow> Inl err | Inr env \<Rightarrow> Inr (Some env))) of
        Inl err \<Rightarrow> Inl err
      | Inr env \<Rightarrow>
          if (case cfg_modules p of None \<Rightarrow> False | Some j \<Rightarrow> \<not> is_list j)
          then Inl (RuntimeError ''puppet_config.modules must be a list'')
          else if cfg_execute p = None \<and> cfg_manifest p = None
          then Inl (PuppetParamsError
                 (''Either '' @ sq @ ''execute'' @ sq @ '' or '' @ sq @ ''manifest'' @ sq @ '' ''
                  @ ''must be specified under '' @ sq @ ''puppet_config'' @ sq @ ''.''
                  @ ''None are specified.''))
          else Inr env)"

text \<open>
  \<^verbatim>\<open>PuppetManager(ctx)\<close>: \<^verbatim>\<open>__new__\<close> picks the runner and the installer class, then
  \<^verbatim>\<open>__init__\<close> processes the properties.
\<close>

definition PuppetManager_new :: "host \<Rightarrow> ctx \<Rightarrow> error + manager" where
  "PuppetManager_new h c =
     (let r = get_runner_class c in
      case get_installer_class (linux_distribution h) of
        Inl err \<Rightarrow> Inl err
      | Inr i \<Rightarrow>
          (case process_properties r (puppet_config c) of
             Inl err \<Rightarrow> Inl err
           | Inr env \<Rightarrow>
               Inr \<lparr>runner = r, installer = i, props = puppet_config c,
                    environment = env, mctx = c\<rparr>))"

section \<open>The agent's configuration file\<close>

definition PUPPET_CONF_MODULE_PATH :: "string list" where
  "PUPPET_CONF_MODULE_PATH =
     [''/etc/puppet/modules'', ''/usr/share/puppet/modules'', ''/opt/cloudify/puppet/modules'']"

definition get_modules_path :: "host \<Rightarrow> string" where
  "get_modules_path h =
     join '':'' (PUPPET_CONF_MODULE_PATH @ [os_path_join (local_repo h) ''modules''])"

datatype conf_field = F_environment | F_modulepath | F_server | F_certname | F_node_name

datatype tpl_seg = Lit string | Field conf_field

definition PUPPET_CONF_TPL :: "tpl_seg list" where
  "PUPPET_CONF_TPL =
     [Lit (''# This file was generated by Cloudify'' @ nl @
           ''[main]'' @ nl @
           ''    ssldir = /var/lib/puppet/ssl'' @ nl @
           ''    environment = ''), Field F_environment,
      Lit (nl @
           ''    pluginsync = true'' @ nl @
           ''    logdir = /var/log/puppet'' @ nl @
           ''    vardir = /var/lib/puppet'' @ nl @
           ''    classfile = $vardir/classes.txt'' @ nl @
           ''    factpath = /opt/cloudify/puppet/facts:$vardir/lib/facter:$vardir/facts'' @ nl @
           ''    modulepath = ''), Field F_modulepath,
      Lit (nl @ nl @
           ''[agent]'' @ nl @
           ''    server = ''), Field F_server,
      Lit (nl @ ''    certname = ''), Field F_certname,
      Lit (nl @ ''    node_name_value = ''), Field F_node_name,
      Lit nl]"

fun format_seg :: "(conf_field \<Rightarrow> string) \<Rightarrow> tpl_seg \<Rightarrow> string" where
  "format_seg args (Lit s) = s"
| "format_seg args (Field f) = args f"

definition format_tpl :: "tpl_seg list \<Rightarrow> (conf_field \<Rightarrow> string) \<Rightarrow> string" where
  "format_tpl tpl args = concat (map (format_seg args) tpl)"

text \<open>
  \<^verbatim>\<open>strftime('%Y%m%d%H%M')\<close>: zero-padded fields. Python 2 refuses a year before 1900.
\<close>

definition zpad :: "nat \<Rightarrow> nat \<Rightarrow> string" where
  "zpad width n = replicate (width - length (str_nat n)) (CHR ''0'') @ str_nat n"

definition strftime_YmdHM :: "datetime \<Rightarrow> error + string" where
  "strftime_YmdHM d =
     (if dt_year d < 1900 then Inl (ValueError ''year is before 1900'')
      else Inr (zpad 4 (dt_year d) @ zpad 2 (dt_month d) @ zpad 2 (dt_day d)
                @ zpad 2 (dt_hour d) @ zpad 2 (dt_minute d)))"

definition get_or :: "string option \<Rightarrow> string \<Rightarrow> string" where
  "get_or v d = (case v of None \<Rightarrow> d | Some x \<Rightarrow> x)"

definition agent_node_name :: "manager \<Rightarrow> string" where
  "agent_node_name m =
     get_or (cfg_node_name_prefix (props m)) '''' @ node_id (mctx m)
     @ get_or (cfg_node_name_suffix (props m)) ''''"

definition get_config_file_contents :: "host \<Rightarrow> manager \<Rightarrow> error + string" where
  "get_config_file_contents h m =
     (let node_name = agent_node_name m in
      case strftime_YmdHM (utcnow h) of
        Inl err \<Rightarrow> Inl err
      | Inr stamp \<Rightarrow>
          (let certname = stamp @ ''-'' @ node_name in
           case cfg_server (props m) of
             None \<Rightarrow> Inl (KeyError ''server'')
           | Some server \<Rightarrow>
               Inr (format_tpl PUPPET_CONF_TPL
                      (\<lambda>f. case f of
                              F_environment \<Rightarrow> get_or (environment m) ''None''
                            | F_modulepath \<Rightarrow> get_modules_path h
                            | F_server \<Rightarrow> server
                            | F_certname \<Rightarrow> certname
                            | F_node_name \<Rightarrow> node_name))))"

section \<open>Files and privileged commands\<close>

text \<open>
  The world that \<open>configure\<close> and \<open>run\<close> act on: the files they create (by name), the
  number of temporary names handed out so far, and the argument lists passed to sudo.
  A facts file holds the facts mapping that \<^verbatim>\<open>json.dump\<close> serialises.
\<close>

datatype file_content = Text string | FactsJson "string \<rightharpoonup> json"

record world =
  fs :: "string \<rightharpoonup> file_content"
  temp_count :: nat
  sudo_calls :: "string list list"

text \<open>
  \<^verbatim>\<open>tempfile.NamedTemporaryFile(prefix, suffix, delete=False)\<close>: the name is the
  temporary directory joined with prefix, random part and suffix.
\<close>

definition temp_name :: "host \<Rightarrow> world \<Rightarrow> string \<Rightarrow> string \<Rightarrow> string" where
  "temp_name h w pfx sfx =
     os_path_join (tmp_dir h) (pfx @ tmp_random h (temp_count w) @ sfx)"

definition write_temp :: "string \<Rightarrow> file_content \<Rightarrow> world \<Rightarrow> world" where
  "write_temp name content w =
     w\<lparr>fs := (fs w)(name \<mapsto> content), temp_count := Suc (temp_count w)\<rparr>"

text \<open>
  \<^verbatim>\<open>_sudo(*args)\<close>: runs the command; a nonzero exit status raises \<^verbatim>\<open>SudoError\<close>. The
  error's message (the exception text with the captured output) is kept as the command
  line only.
\<close>

definition sudo_result :: "string list \<Rightarrow> nat \<Rightarrow> world \<Rightarrow> (error + unit) \<times> world" where
  "sudo_result args status w =
     (let w' = w\<lparr>sudo_calls := sudo_calls w @ [args]\<rparr> in
      if status \<noteq> 0 then (Inl (SudoError (join '' '' (''/usr/bin/sudo'' # args))), w')
      else (Inr (), w'))"

definition sudo :: "host \<Rightarrow> string list \<Rightarrow> world \<Rightarrow> (error + unit) \<times> world" where
  "sudo h args w = sudo_result args (sudo_status h args) w"

text \<open>
  \<^verbatim>\<open>_sudo_write_file\<close>: the contents go to a temporary file that \<^verbatim>\<open>sudo mv\<close> then
  moves to its place.
\<close>

definition sudo_write_file :: "host \<Rightarrow> string \<Rightarrow> string \<Rightarrow> world \<Rightarrow> (error + unit) \<times> world" where
  "sudo_write_file h filename contents w =
     (let tmp = temp_name h w ''tmp'' [];
          w1 = write_temp tmp (Text contents) w
      in case sudo h [''mv'', tmp, filename] w1 of
           (Inl err, w2) \<Rightarrow> (Inl err, w2)
         | (Inr u, w2) \<Rightarrow>
             (Inr (), w2\<lparr>fs := ((fs w2)(tmp := None))(filename \<mapsto> Text contents)\<rparr>))"

section \<open>Runner variants\<close>

definition agent_configure :: "host \<Rightarrow> manager \<Rightarrow> world \<Rightarrow> (error + unit) \<times> world" where
  "agent_configure h m w =
     (case get_config_file_contents h m of
        Inl err \<Rightarrow> (Inl err, w)
      | Inr contents \<Rightarrow> sudo_write_file h ''/etc/puppet/puppet.conf'' contents w)"

fun configure :: "runner_class \<Rightarrow> host \<Rightarrow> manager \<Rightarrow> world \<Rightarrow> (error + unit) \<times> world" where
  "configure PuppetAgentRunner h m w = agent_configure h m w"
| "configure PuppetStandaloneRunner h m w =
     (case standalone_configure_error h of
        Some err \<Rightarrow> (Inl err, w)
      | None \<Rightarrow> (Inr (), w))"

fun get_run_env_vars :: "runner_class \<Rightarrow> host \<Rightarrow> (string \<times> string) list" where
  "get_run_env_vars PuppetAgentRunner h = []"
| "get_run_env_vars PuppetStandaloneRunner h = [(''FACTER_CLOUDIFY_LOCAL_REPO'', local_repo h)]"

text \<open>Python's truth value of an optional string: \<^verbatim>\<open>None\<close> and the empty string are false.\<close>

definition truthy :: "string option \<Rightarrow> bool" where
  "truthy v = (case v of None \<Rightarrow> False | Some x \<Rightarrow> x \<noteq> [])"

definition standalone_get_runner_cmd ::
  "host \<Rightarrow> string option \<Rightarrow> string option \<Rightarrow> string option \<Rightarrow> error + string list" where
  "standalone_get_runner_cmd h env execute manifest =
     (let cmd0 = [''apply'', ''--modulepath='' @ get_modules_path h];
          cmd1 = (if truthy env then cmd0 @ [''--environment'', get_or env []] else cmd0);
          cmd2 = (if truthy execute
                  then cmd1 @ [''--execute'', quote_shell_arg (get_or execute [])] else cmd1);
          cmd3 = (if truthy manifest
                  then cmd2 @ [quote_shell_arg (os_path_join (local_repo h) (get_or manifest []))]
                  else cmd2);
          cmd_done = (truthy execute \<or> truthy manifest)
      in if \<not> cmd_done
         then Inl (PuppetParamsError
                (''Either '' @ sq @ ''execute'' @ sq @ '' or '' @ sq @ ''manifest'' @ sq @ '' ''
                 @ ''must be specified. None are specified''))
         else Inr cmd3)"

fun get_runner_cmd ::
  "runner_class \<Rightarrow> host \<Rightarrow> manager \<Rightarrow> string option \<Rightarrow> string option \<Rightarrow> error + string list" where
  "get_runner_cmd PuppetAgentRunner h m execute manifest =
     Inr [''agent'', ''--onetime'', ''--no-daemonize'']"
| "get_runner_cmd PuppetStandaloneRunner h m execute manifest =
     standalone_get_runner_cmd h (environment m) execute manifest"

section \<open>The Debian installer's repository package\<close>

definition endswith :: "string \<Rightarrow> string \<Rightarrow> bool" where
  "endswith s sfx = (length sfx \<le> length s \<and> drop (length s - length sfx) s = sfx)"

definition default_repo_package_url :: "string \<Rightarrow> string" where
  "default_repo_package_url ver = ''http://apt.puppetlabs.com/puppetlabs-release-'' @ ver @ ''.deb''"

text \<open>\<^verbatim>\<open>props.get('repos', {}).get('deb', {}).get(ver)\<close>.\<close>

definition deb_override :: "puppet_config \<Rightarrow> string \<Rightarrow> string option" where
  "deb_override p ver =
     (let repos = (case cfg_repos p of None \<Rightarrow> Map.empty | Some r \<Rightarrow> r);
          deb = (case repos ''deb'' of None \<Rightarrow> Map.empty | Some d \<Rightarrow> d)
      in deb ver)"

text \<open>
  \<^verbatim>\<open>get_repo_package_url\<close> reads the third component of the distribution triple and
  falls back on the second; \<^verbatim>\<open>url or default\<close> takes the default for a missing or
  empty override.
\<close>

fun debian_get_repo_package_url :: "string \<times> string \<times> string \<Rightarrow> puppet_config \<Rightarrow> error + string" where
  "debian_get_repo_package_url (v0, v1, v2) p =
     (case (if v2 \<noteq> [] then Inr v2
            else if endswith v1 ''/sid'' then Inr ''sid''
            else Inl (PuppetError ''Fail to detect Linux distro version'')) of
        Inl err \<Rightarrow> Inl err
      | Inr ver \<Rightarrow>
          (let url = deb_override p ver
           in Inr (if truthy url then get_or url [] else default_repo_package_url ver)))"

section \<open>The run\<close>

definition context_to_struct :: "ctx \<Rightarrow> (string \<times> json) list" where
  "context_to_struct c =
     [(''node_id'', JStr (node_id c)),
      (''node_name'', JStr (node_name c)),
      (''blueprint_id'', JStr (blueprint_id c)),
      (''deployment_id'', JStr (deployment_id c)),
      (''properties'', properties c),
      (''runtime_properties'', runtime_properties c),
      (''capabilities'', (case capabilities c of None \<Rightarrow> JObj [] | Some caps \<Rightarrow> caps)),
      (''host_ip'', (case host_ip c of None \<Rightarrow> JNull | Some ip \<Rightarrow> JStr ip))]"

definition related_to_struct :: "related_node \<Rightarrow> (string \<times> json) list" where
  "related_to_struct r =
     [(''node_id'', JStr (rel_node_id r)),
      (''properties'', rel_properties r),
      (''runtime_properties'', rel_runtime_properties r),
      (''host_ip'', (case rel_host_ip r of None \<Rightarrow> JNull | Some ip \<Rightarrow> JStr ip))]"

definition cloudify_fact :: "ctx \<Rightarrow> json" where
  "cloudify_fact c =
     JObj (case related c of
             None \<Rightarrow> context_to_struct c
           | Some r \<Rightarrow> context_to_struct c @ [(''related'', JObj (related_to_struct r))])"

text \<open>\<^verbatim>\<open>self.props.get('facts', {})\<close>, the facts the operator supplied.\<close>

definition operator_facts :: "manager \<Rightarrow> string \<rightharpoonup> json" where
  "operator_facts m = (case cfg_facts (props m) of None \<Rightarrow> Map.empty | Some f \<Rightarrow> f)"

definition build_facts :: "manager \<Rightarrow> error + (string \<rightharpoonup> json)" where
  "build_facts m =
     (let facts = operator_facts m in
      if ''cloudify'' \<in> dom facts
      then Inl (PuppetError (''Puppet attributes must not contain '' @ sq @ ''cloudify'' @ sq))
      else Inr (facts(''cloudify'' \<mapsto> cloudify_fact (mctx m))))"

definition build_cmd :: "string list \<Rightarrow> string list option \<Rightarrow> string" where
  "build_cmd runner_cmd tags =
     (let cmd = [''puppet''] @ runner_cmd
                @ [''--detailed-exitcodes'', ''--logdest'', ''console'', ''--logdest'', ''syslog''];
          cmd' = (case tags of
                    None \<Rightarrow> cmd
                  | Some ts \<Rightarrow> if ts \<noteq> [] then cmd @ [''--tags'', join '','' ts] else cmd)
      in join '' '' cmd')"

definition temp_prefix :: "host \<Rightarrow> ctx \<Rightarrow> string" where
  "temp_prefix h c =
     ''puppet.'' @ node_name c @ ''.'' @ node_id c @ ''.'' @ str_nat (pid h) @ ''.''"

text \<open>
  The part of \<^verbatim>\<open>run()\<close> after \<^verbatim>\<open>install()\<close> and \<^verbatim>\<open>configure()\<close>: the facts file, the
  command, the run script, its execution, and the removal of the facts file.
\<close>

definition run_body ::
  "host \<Rightarrow> manager \<Rightarrow> string list option \<Rightarrow> string option \<Rightarrow> string option \<Rightarrow> world
     \<Rightarrow> (error + unit) \<times> world" where
  "run_body h m tags execute manifest w =
     (case build_facts m of
        Inl err \<Rightarrow> (Inl err, w)
      | Inr facts \<Rightarrow>
          (let t = temp_prefix h (mctx m);
               facts_file = temp_name h w t ''.facts_in.json'';
               w1 = write_temp facts_file (FactsJson facts) w
           in case get_runner_cmd (runner m) h m execute manifest of
                Inl err \<Rightarrow> (Inl err, w1)
              | Inr runner_cmd \<Rightarrow>
                  (let cmd = build_cmd runner_cmd tags;
                       environ = get_run_env_vars (runner m) h;
                       run_file = temp_name h w1 t ''.run.sh'';
                       w2 = write_temp run_file
                              (Text (run_script_text DIRS_local_custom_facts facts_file environ cmd)) w1
                   in case sudo h [''chmod'', ''+x'', run_file] w2 of
                        (Inl err, w3) \<Rightarrow> (Inl err, w3)
                      | (Inr u, w3) \<Rightarrow>
                          (case sudo_result [run_file]
                                  (exec_sh (agent_status h)
                                     (run_script_stmts DIRS_local_custom_facts facts_file environ cmd) 0)
                                  w3 of
                             (Inl err, w4) \<Rightarrow> (Inl err, w4)
                           | (Inr u, w4) \<Rightarrow>
                               (Inr (), w4\<lparr>fs := (fs w4)(facts_file := None)\<rparr>)))))"

definition run ::
  "host \<Rightarrow> manager \<Rightarrow> string list option \<Rightarrow> string option \<Rightarrow> string option \<Rightarrow> world
     \<Rightarrow> (error + unit) \<times> world" where
  "run h m tags execute manifest w =
     (case install_error h of
        Some err \<Rightarrow> (Inl err, w)
      | None \<Rightarrow>
          (case configure (runner m) h m w of
             (Inl err, w1) \<Rightarrow> (Inl err, w1)
           | (Inr u, w1) \<Rightarrow> run_body h m tags execute manifest w1))"

section \<open>Example inputs\<close>

text \<open>A Debian-family host, a configuration with nothing set, and the node \<^verbatim>\<open>web-3\<close>.\<close>

definition example_host :: host where
  "example_host =
     \<lparr>linux_distribution = (''Ubuntu'', ''precise'', ''12.04''),
      local_repo = ''/home/ubuntu/cloudify/puppet'',
      utcnow = \<lparr>dt_year = 2014, dt_month = 5, dt_day = 7, dt_hour = 9, dt_minute = 30\<rparr>,
      pid = 4242,
      tmp_dir = ''/tmp'',
      tmp_random = (\<lambda>k. if k = 0 then ''a1B2c3'' else ''d4E5f6''),
      sudo_status = (\<lambda>args. 0),
      agent_status = (\<lambda>c. 2),
      install_error = None,
      standalone_configure_error = None\<rparr>"

definition empty_config :: puppet_config where
  "empty_config =
     \<lparr>cfg_environment = None, cfg_server = None, cfg_node_name_prefix = None,
      cfg_node_name_suffix = None, cfg_facts = None, cfg_modules = None,
      cfg_execute = None, cfg_manifest = None, cfg_repos = None\<rparr>"

definition example_ctx :: "puppet_config \<Rightarrow> ctx" where
  "example_ctx p =
     \<lparr>node_id = ''web-3'', node_name = ''web'', blueprint_id = ''bp'', deployment_id = ''dep'',
      properties = JObj [], puppet_config = p, runtime_properties = JObj [],
      capabilities = None, host_ip = None, related = None\<rparr>"



section \<open>The files of one run\<close>

text \<open>
  The names \<open>run_body\<close> gives its two temporary files when it starts in world \<open>w\<close>, and
  the text of the script it writes for the runner's command \<open>rc\<close>.
\<close>

definition facts_file_name :: "host \<Rightarrow> manager \<Rightarrow> world \<Rightarrow> string" where
  "facts_file_name h m w = temp_name h w (temp_prefix h (mctx m)) ''.facts_in.json''"




definition empty_world :: world where
  "empty_world = \<lparr>fs = Map.empty, temp_count = 0, sudo_calls = []\<rparr>"


section \<open>Tag syntax\<close>






section \<open>Clock values\<close>

text \<open>
  The range of a \<^verbatim>\<open>datetime\<close> that \<^verbatim>\<open>strftime\<close> accepts: Python 2 formats years from
  1900, and \<^verbatim>\<open>datetime.MAXYEAR\<close> is 9999.
\<close>

definition valid_datetime :: "datetime \<Rightarrow> bool" where
  "valid_datetime d =
     (1900 \<le> dt_year d \<and> dt_year d \<le> 9999
      \<and> 1 \<le> dt_month d \<and> dt_month d \<le> 12
      \<and> 1 \<le> dt_day d \<and> dt_day d \<le> 31
      \<and> dt_hour d < 24 \<and> dt_minute d < 60)"

definition agent_config :: "string \<Rightarrow> puppet_config" where
  "agent_config e =
     empty_config\<lparr>cfg_environment := Some e, cfg_server := Some ''puppetmaster.example''\<rparr>"

section \<open>Properties\<close>

subsection \<open>The run script and its exit status\<close>

lemma render_environ_exports:
  "concat (map ((\<lambda>s. render_stmt s @ nl) \<circ> (\<lambda>(k, v). Export k (sq @ v @ sq))) environ)
     = render_environ environ"
  by (induction environ) (auto simp: render_environ_def)

lemma run_script_stmts_text:
  "render_script (run_script_stmts d f environ cmd) = run_script_text d f environ cmd"
  by (simp add: render_script_def run_script_stmts_def run_script_text_def
      render_environ_exports str_nat.simps digit_def)




subsection \<open>RetryingLock\<close>

lemma acquire_loop_timeouts:
  "(\<And>i. i < n \<Longrightarrow> acq (attempts w + i) = LockTimeout) \<Longrightarrow>
   acquire_loop acq n h w =
     (Inl (RuntimeError (lock_failure_message (path h))), h,
      w\<lparr>attempts := attempts w + n,
        logged := logged w @ replicate n (CouldNotLock (path h) (sleep h))\<rparr>)"
proof (induction n arbitrary: w)
  case 0
  then show ?case by simp
next
  case (Suc n)
  have first: "acq (attempts w) = LockTimeout"
    using Suc.prems [of 0] by simp
  let ?w = "w\<lparr>attempts := Suc (attempts w),
               logged := logged w @ [CouldNotLock (path h) (sleep h)]\<rparr>"
  have rest: "\<And>i. i < n \<Longrightarrow> acq (attempts ?w + i) = LockTimeout"
    using Suc.prems [of "Suc _"] by simp
  show ?case
    using Suc.IH [of ?w, OF rest] first
    by (simp add: replicate_app_Cons_same)
qed

lemma acquire_loop_acquired:
  "k < n \<Longrightarrow> (\<And>i. i < k \<Longrightarrow> acq (attempts w + i) = LockTimeout) \<Longrightarrow>
   acq (attempts w + k) = Acquired \<Longrightarrow>
   acquire_loop acq n h w =
     (Inr (), h\<lparr>acquired := True\<rparr>,
      w\<lparr>attempts := attempts w + Suc k, held := True,
        logged := logged w @ replicate k (CouldNotLock (path h) (sleep h))
                   @ [AcquiredLock (path h)]\<rparr>)"
proof (induction n arbitrary: w k)
  case 0
  then show ?case by simp
next
  case (Suc n)
  show ?case
  proof (cases k)
    case 0
    then show ?thesis using Suc.prems(3) by simp
  next
    case (Suc j)
    have first: "acq (attempts w) = LockTimeout"
      using Suc.prems(2) [of 0] \<open>k = Suc j\<close> by simp
    let ?w = "w\<lparr>attempts := Suc (attempts w),
                 logged := logged w @ [CouldNotLock (path h) (sleep h)]\<rparr>"
    have rest: "\<And>i. i < j \<Longrightarrow> acq (attempts ?w + i) = LockTimeout"
      using Suc.prems(2) [of "Suc _"] \<open>k = Suc j\<close> by simp
    have last: "acq (attempts ?w + j) = Acquired"
      using Suc.prems(3) \<open>k = Suc j\<close> by simp
    have "j < n" using Suc.prems(1) \<open>k = Suc j\<close> by simp
    from Suc.IH [of j ?w, OF this rest last] first \<open>k = Suc j\<close>
    show ?thesis by (simp add: replicate_app_Cons_same)
  qed
qed

lemma sublist_failure_message: "sublist p (lock_failure_message p)"
proof -
  have "lock_failure_message p = (''Failed to lock the file '' @ sq) @ p @ (sq @ ''.'')"
    by (simp add: lock_failure_message_def)
  then show ?thesis
    by (simp only: sublist_appendI)
qed

text \<open>
  C2: a handle built with \<^verbatim>\<open>retries = N\<close>, \<open>N \<ge> 0\<close>. If each of the next \<open>N\<close>
  acquisition attempts times out, entering the scope makes exactly \<open>N\<close> attempts and
  raises the error whose message contains the lock file's path; the handle's
  \<open>acquired\<close> flag is false afterwards and nothing was released. If the attempt number
  \<open>k + 1 \<le> N\<close> is the first to succeed, entering returns with \<open>acquired\<close> true after
  exactly \<open>k + 1\<close> attempts.
\<close>

theorem retrying_lock_enter:
  fixes N :: int
  assumes h: "h = RetryingLock_init tmpdir_var lock_name N s"
  shows "(0 \<le> N \<and> (\<forall>i. i < nat N \<longrightarrow> acq (attempts w + i) = LockTimeout) \<longrightarrow>
            (case RetryingLock_enter acq h w of
               (r, h', w') \<Rightarrow>
                 r = Inl (RuntimeError (lock_failure_message (path h)))
                 \<and> sublist (path h) (lock_failure_message (path h))
                 \<and> int (attempts w') = int (attempts w) + N
                 \<and> \<not> acquired h' \<and> held w' = held w \<and> releases w' = releases w))
       \<and> (k < nat N \<and> (\<forall>i. i < k \<longrightarrow> acq (attempts w + i) = LockTimeout)
            \<and> acq (attempts w + k) = Acquired \<longrightarrow>
            (case RetryingLock_enter acq h w of
               (r, h', w') \<Rightarrow>
                 r = Inr () \<and> acquired h' \<and> held w'
                 \<and> attempts w' = attempts w + k + 1))"
proof (intro conjI impI)
  assume a: "0 \<le> N \<and> (\<forall>i. i < nat N \<longrightarrow> acq (attempts w + i) = LockTimeout)"
  let ?w = "w\<lparr>logged := logged w @ [UsingLockFile (path h)]\<rparr>"
  have "\<And>i. i < nat N \<Longrightarrow> acq (attempts ?w + i) = LockTimeout"
    using a by simp
  from acquire_loop_timeouts [of "nat N" acq ?w h, OF this] a
  show "case RetryingLock_enter acq h w of
          (r, h', w') \<Rightarrow>
            r = Inl (RuntimeError (lock_failure_message (path h)))
            \<and> sublist (path h) (lock_failure_message (path h))
            \<and> int (attempts w') = int (attempts w) + N
            \<and> \<not> acquired h' \<and> held w' = held w \<and> releases w' = releases w"
    by (simp add: RetryingLock_enter_def h RetryingLock_init_def Let_def
        sublist_failure_message)
next
  assume a: "k < nat N \<and> (\<forall>i. i < k \<longrightarrow> acq (attempts w + i) = LockTimeout)
            \<and> acq (attempts w + k) = Acquired"
  let ?w = "w\<lparr>logged := logged w @ [UsingLockFile (path h)]\<rparr>"
  have t: "\<And>i. i < k \<Longrightarrow> acq (attempts ?w + i) = LockTimeout"
    using a by simp
  have l: "acq (attempts ?w + k) = Acquired" and kn: "k < nat N"
    using a by simp_all
  from acquire_loop_acquired [of k "nat N" acq ?w h, OF kn t l]
  show "case RetryingLock_enter acq h w of
          (r, h', w') \<Rightarrow>
            r = Inr () \<and> acquired h' \<and> held w'
            \<and> attempts w' = attempts w + k + 1"
    by (simp add: RetryingLock_enter_def h RetryingLock_init_def Let_def)
qed


theorem retrying_lock_enter_witness:
  "(0::int) \<le> 3
   \<and> (case RetryingLock_enter (\<lambda>i. LockTimeout)
              (RetryingLock_init None ''puppet-install.lock'' 3 10) fresh_world of
         (r, h', w') \<Rightarrow>
           r = Inl (RuntimeError (''Failed to lock the file '' @ sq @ ''/tmp/puppet-install.lock'' @ sq @ ''.''))
           \<and> attempts w' = 3 \<and> \<not> acquired h')
   \<and> (case RetryingLock_enter (\<lambda>i. if i = 1 then Acquired else LockTimeout)
              (RetryingLock_init None ''puppet-install.lock'' 3 10) fresh_world of
         (r, h', w') \<Rightarrow> r = Inr () \<and> acquired h' \<and> attempts w' = 2)"
  using
    retrying_lock_enter [where N = 3 and acq = "\<lambda>i. LockTimeout" and w = fresh_world
      and tmpdir_var = None and lock_name = "''puppet-install.lock''" and s = 10 and k = 0,
      OF refl]
    retrying_lock_enter [where N = 3 and k = 1 and w = fresh_world
      and acq = "\<lambda>i. if i = 1 then Acquired else LockTimeout"
      and tmpdir_var = None and lock_name = "''puppet-install.lock''" and s = 10, OF refl]
  by (simp add: fresh_world_def RetryingLock_init_def os_path_join_def lock_failure_message_def
      split: prod.splits)

lemma acquire_loop_frame:
  "acquire_loop acq n h w = (r, h1, w1) \<Longrightarrow>
   releases w1 = releases w \<and> (r = Inr () \<longrightarrow> acquired h1)"
proof (induction n arbitrary: w)
  case 0
  then show ?case by auto
next
  case (Suc n)
  show ?case
  proof (cases "acq (attempts w)")
    case Acquired
    with Suc.prems show ?thesis by auto
  next
    case LockTimeout
    with Suc.prems Suc.IH show ?thesis by fastforce
  next
    case (AcquireFailed m)
    with Suc.prems show ?thesis by auto
  qed
qed

lemma enter_frame:
  "RetryingLock_enter acq h w = (r, h1, w1) \<Longrightarrow>
   releases w1 = releases w \<and> (r = Inr () \<longrightarrow> acquired h1)"
  unfolding RetryingLock_enter_def
  using acquire_loop_frame [of acq "nat (retries h)" h _ r h1 w1] by fastforce

text \<open>
  C3: leaving the scope of a handle that is not acquired changes nothing and raises
  nothing; leaving the scope of an acquired handle calls \<^verbatim>\<open>release\<close> once and clears
  the flag. In a \<^verbatim>\<open>with\<close> statement whose entry succeeded, this release happens
  whatever the guarded body returns or raises, and the body's outcome is passed on; when
  entry fails, the body does not run and nothing is released.
\<close>

theorem retrying_lock_exit:
  "(\<not> acquired h \<longrightarrow> RetryingLock_exit h w = (h, w))
   \<and> (acquired h \<longrightarrow>
        (case RetryingLock_exit h w of
           (h', w') \<Rightarrow> \<not> acquired h' \<and> \<not> held w' \<and> releases w' = Suc (releases w)))
   \<and> (case RetryingLock_enter acq h0 w of
        (Inl e, h1, w1) \<Rightarrow>
          with_lock acq h0 body w s = (Inl e, h1, w1, s) \<and> releases w1 = releases w
      | (Inr u, h1, w1) \<Rightarrow>
          (case with_lock acq h0 body w s of
             (r, h2, w2, s') \<Rightarrow>
               (r, s') = body s \<and> \<not> acquired h2 \<and> \<not> held w2
               \<and> releases w2 = Suc (releases w)))"
proof (intro conjI)
  show "\<not> acquired h \<longrightarrow> RetryingLock_exit h w = (h, w)"
    by (simp add: RetryingLock_exit_def)
  show "acquired h \<longrightarrow>
        (case RetryingLock_exit h w of
           (h', w') \<Rightarrow> \<not> acquired h' \<and> \<not> held w' \<and> releases w' = Suc (releases w))"
    by (simp add: RetryingLock_exit_def)
  obtain r h1 w1 where e: "RetryingLock_enter acq h0 w = (r, h1, w1)"
    by (cases "RetryingLock_enter acq h0 w") auto
  note f = enter_frame [OF e]
  show "case RetryingLock_enter acq h0 w of
        (Inl e, h1, w1) \<Rightarrow>
          with_lock acq h0 body w s = (Inl e, h1, w1, s) \<and> releases w1 = releases w
      | (Inr u, h1, w1) \<Rightarrow>
          (case with_lock acq h0 body w s of
             (r, h2, w2, s') \<Rightarrow>
               (r, s') = body s \<and> \<not> acquired h2 \<and> \<not> held w2
               \<and> releases w2 = Suc (releases w))"
  proof (cases r)
    case (Inl err)
    with e f show ?thesis by (simp add: with_lock_def)
  next
    case (Inr u)
    with e f show ?thesis
      by (cases "body s") (simp add: with_lock_def RetryingLock_exit_def)
  qed
qed

theorem retrying_lock_exit_witness:
  "\<not> acquired (RetryingLock_init None ''puppet-config.lock'' 30 10)
   \<and> RetryingLock_exit (RetryingLock_init None ''puppet-config.lock'' 30 10) fresh_world
       = (RetryingLock_init None ''puppet-config.lock'' 30 10, fresh_world)
   \<and> acquired ((RetryingLock_init None ''puppet-config.lock'' 30 10)\<lparr>acquired := True\<rparr>)
   \<and> (case RetryingLock_exit
              ((RetryingLock_init None ''puppet-config.lock'' 30 10)\<lparr>acquired := True\<rparr>)
              (fresh_world\<lparr>held := True\<rparr>) of
         (h', w') \<Rightarrow> \<not> acquired h' \<and> \<not> held w' \<and> releases w' = 1)
   \<and> (case with_lock (\<lambda>i. Acquired) (RetryingLock_init None ''puppet-config.lock'' 30 10)
              raising_body fresh_world 0 of
         (r, h2, w2, s') \<Rightarrow>
           r = Inl (PuppetError ''Repo package is not available'')
           \<and> \<not> acquired h2 \<and> \<not> held w2 \<and> releases w2 = 1)"
proof -
  let ?h = "RetryingLock_init None ''puppet-config.lock'' 30 10"
  have e: "RetryingLock_enter (\<lambda>i. Acquired) ?h fresh_world =
             (Inr (), ?h\<lparr>acquired := True\<rparr>,
              fresh_world\<lparr>attempts := 1, held := True,
                logged := [UsingLockFile (path ?h), AcquiredLock (path ?h)]\<rparr>)"
    using acquire_loop_acquired [of 0 30 "\<lambda>i. Acquired"
        "fresh_world\<lparr>logged := logged fresh_world @ [UsingLockFile (path ?h)]\<rparr>" ?h]
    by (simp add: RetryingLock_enter_def RetryingLock_init_def fresh_world_def)
  have a: "\<not> acquired ?h"
    by (simp add: RetryingLock_init_def)
  note t1 = retrying_lock_exit [where h = ?h and w = fresh_world and acq = "\<lambda>i. Acquired"
        and ?h0.0 = ?h and body = raising_body and s = 0]
  note t2 = retrying_lock_exit [where h = "?h\<lparr>acquired := True\<rparr>"
        and w = "fresh_world\<lparr>held := True\<rparr>" and acq = "\<lambda>i. Acquired"
        and ?h0.0 = ?h and body = raising_body and s = 0]
  have p1: "RetryingLock_exit ?h fresh_world = (?h, fresh_world)"
    using t1 a by blast
  have p2: "case RetryingLock_exit (?h\<lparr>acquired := True\<rparr>) (fresh_world\<lparr>held := True\<rparr>) of
              (h', w') \<Rightarrow> \<not> acquired h' \<and> \<not> held w' \<and> releases w' = 1"
    using t2 by (simp add: fresh_world_def)
  have p3: "case with_lock (\<lambda>i. Acquired) ?h raising_body fresh_world 0 of
              (r, h2, w2, s') \<Rightarrow>
                r = Inl (PuppetError ''Repo package is not available'')
                \<and> \<not> acquired h2 \<and> \<not> held w2 \<and> releases w2 = 1"
    using t1 [THEN conjunct2, THEN conjunct2, unfolded e]
    by (simp add: raising_body_def fresh_world_def split: prod.splits)
  show ?thesis
    using a p1 p2 p3 by simp
qed

subsection \<open>Environment names\<close>

lemma env_char_iff:
  "env_char c \<longleftrightarrow> c \<in> set ''abcdefghijklmnopqrstuvwxyz0123456789''"
proof (cases c)
  case (Char b0 b1 b2 b3 b4 b5 b6 b7)
  then show ?thesis
    by (cases b0; cases b1; cases b2; cases b3; cases b4; cases b5; cases b6; cases b7)
       (simp_all add: env_char_def)
qed

lemma re_sub_env_idem: "re_sub_env (re_sub_env s) = re_sub_env s"
  by (simp add: re_sub_env_def)

text \<open>
  C4: normalisation keeps the length and replaces exactly the characters \<^verbatim>\<open>-\<close>,
  \<^verbatim>\<open>.\<close> and space by \<^verbatim>\<open>_\<close>; \<open>set_environment\<close> returns the normalised name when
  it is a non-empty string of lower-case letters and digits and raises the parameter
  error otherwise; normalising twice is normalising once.
\<close>

theorem environment_normalization:
  "length (re_sub_env s) = length s
   \<and> (\<forall>i < length s.
         re_sub_env s ! i =
           (if s ! i = CHR ''-'' \<or> s ! i = CHR ''.'' \<or> s ! i = CHR '' '' then CHR ''_'' else s ! i))
   \<and> (PUPPET_ENV_RE_match (re_sub_env s) \<longrightarrow> set_environment s = Inr (re_sub_env s))
   \<and> (\<not> PUPPET_ENV_RE_match (re_sub_env s) \<longrightarrow>
         (\<exists>msg. set_environment s = Inl (PuppetParamsError msg)))
   \<and> (PUPPET_ENV_RE_match t \<longleftrightarrow>
         t \<noteq> [] \<and> (\<forall>c \<in> set t. c \<in> set ''abcdefghijklmnopqrstuvwxyz0123456789''))
   \<and> re_sub_env (re_sub_env s) = re_sub_env s"
proof (intro conjI)
  show "PUPPET_ENV_RE_match t \<longleftrightarrow>
         t \<noteq> [] \<and> (\<forall>c \<in> set t. c \<in> set ''abcdefghijklmnopqrstuvwxyz0123456789'')"
    unfolding PUPPET_ENV_RE_match_def list_all_iff env_char_iff ..
qed (auto simp: re_sub_env_def set_environment_def)

theorem environment_normalization_witness:
  "(4::nat) < length ''Prod-1''
   \<and> re_sub_env ''Prod-1'' ! 4 = CHR ''_''
   \<and> PUPPET_ENV_RE_match (re_sub_env ''prod1'')
   \<and> set_environment ''prod1'' = Inr ''prod1''
   \<and> \<not> PUPPET_ENV_RE_match (re_sub_env ''Prod-1'')
   \<and> (\<exists>msg. set_environment ''Prod-1'' = Inl (PuppetParamsError msg))
   \<and> re_sub_env (re_sub_env ''Prod-1'') = ''Prod_1''"
proof -
  have m: "PUPPET_ENV_RE_match (re_sub_env ''prod1'')"
    by (simp add: re_sub_env_def PUPPET_ENV_RE_match_def env_char_def)
  have n: "\<not> PUPPET_ENV_RE_match (re_sub_env ''Prod-1'')"
    by (simp add: re_sub_env_def PUPPET_ENV_RE_match_def env_char_def)
  have r: "re_sub_env ''prod1'' = ''prod1''" "re_sub_env ''Prod-1'' = ''Prod_1''"
    by (simp_all add: re_sub_env_def)
  note t1 = environment_normalization [where s = "''prod1''"]
  note t2 = environment_normalization [where s = "''Prod-1''"]
  have "re_sub_env ''Prod-1'' ! 4 = CHR ''_''"
    using t2 [THEN conjunct2, THEN conjunct1] by simp
  moreover have "set_environment ''prod1'' = Inr ''prod1''"
    using t1 m r by simp
  moreover have "\<exists>msg. set_environment ''Prod-1'' = Inl (PuppetParamsError msg)"
    using t2 n by blast
  moreover have "re_sub_env (re_sub_env ''Prod-1'') = ''Prod_1''"
    using t2 r by simp
  ultimately show ?thesis
    using m n by simp
qed



subsection \<open>The Debian repository package\<close>

text \<open>
  C8: with the distribution triple \<open>('Ubuntu', 'precise', '12.04')\<close> the URL is the
  default one for \<open>12.04\<close> when the override map has no entry for \<open>12.04\<close>, and the
  entry (a URL, so not the empty string) when it has one; with an empty third
  component a second component ending in \<^verbatim>\<open>/sid\<close> selects \<open>sid\<close>, and anything else
  raises the error of a distribution that was not detected.
\<close>

theorem debian_repo_package_url:
  "(deb_override p ''12.04'' = None \<longrightarrow>
      debian_get_repo_package_url (''Ubuntu'', ''precise'', ''12.04'') p
        = Inr ''http://apt.puppetlabs.com/puppetlabs-release-12.04.deb'')
   \<and> (deb_override p ''12.04'' = Some u \<and> u \<noteq> [] \<longrightarrow>
      debian_get_repo_package_url (''Ubuntu'', ''precise'', ''12.04'') p = Inr u)
   \<and> (endswith v1 ''/sid'' \<longrightarrow>
      debian_get_repo_package_url (v0, v1, []) p
        = Inr (case deb_override p ''sid'' of
                 None \<Rightarrow> ''http://apt.puppetlabs.com/puppetlabs-release-sid.deb''
               | Some s \<Rightarrow>
                   if s \<noteq> [] then s else ''http://apt.puppetlabs.com/puppetlabs-release-sid.deb''))
   \<and> (\<not> endswith v1 ''/sid'' \<longrightarrow>
      debian_get_repo_package_url (v0, v1, []) p
        = Inl (PuppetError ''Fail to detect Linux distro version''))"
  by (auto simp: truthy_def get_or_def default_repo_package_url_def split: option.splits)

theorem debian_repo_package_url_witness:
  "deb_override empty_config ''12.04'' = None
   \<and> debian_get_repo_package_url (''Ubuntu'', ''precise'', ''12.04'') empty_config
        = Inr ''http://apt.puppetlabs.com/puppetlabs-release-12.04.deb''
   \<and> deb_override
        (empty_config\<lparr>cfg_repos := Some [''deb'' \<mapsto> [''12.04'' \<mapsto> ''http://mirror.example/pl.deb'']]\<rparr>)
        ''12.04'' = Some ''http://mirror.example/pl.deb''
   \<and> debian_get_repo_package_url (''Ubuntu'', ''precise'', ''12.04'')
        (empty_config\<lparr>cfg_repos := Some [''deb'' \<mapsto> [''12.04'' \<mapsto> ''http://mirror.example/pl.deb'']]\<rparr>)
        = Inr ''http://mirror.example/pl.deb''
   \<and> endswith ''jessie/sid'' ''/sid''
   \<and> debian_get_repo_package_url (''Debian'', ''jessie/sid'', []) empty_config
        = Inr ''http://apt.puppetlabs.com/puppetlabs-release-sid.deb''
   \<and> \<not> endswith ''wheezy'' ''/sid''
   \<and> debian_get_repo_package_url (''Debian'', ''wheezy'', []) empty_config
        = Inl (PuppetError ''Fail to detect Linux distro version'')"
proof -
  let ?p = "empty_config\<lparr>cfg_repos := Some [''deb'' \<mapsto> [''12.04'' \<mapsto> ''http://mirror.example/pl.deb'']]\<rparr>"
  have a: "deb_override empty_config ''12.04'' = None"
    "deb_override empty_config ''sid'' = None"
    by (simp_all add: deb_override_def empty_config_def)
  have b: "deb_override ?p ''12.04'' = Some ''http://mirror.example/pl.deb''"
    by (simp add: deb_override_def empty_config_def)
  have c: "endswith ''jessie/sid'' ''/sid''" "\<not> endswith ''wheezy'' ''/sid''"
    by (simp_all add: endswith_def)
  note t1 = debian_repo_package_url [where p = empty_config and ?v1.0 = "''jessie/sid''"
      and ?v0.0 = "''Debian''"]
  note t2 = debian_repo_package_url [where p = ?p and u = "''http://mirror.example/pl.deb''"]
  note t3 = debian_repo_package_url [where p = empty_config and ?v1.0 = "''wheezy''"
      and ?v0.0 = "''Debian''"]
  show ?thesis
    using t1 t2 t3 a b c by simp
qed

subsection \<open>The standalone command\<close>

lemma quote_notify:
  "quote_shell_arg ''notify{'x':}''
     = sq @ ''notify{'' @ sq @ dq @ sq @ dq @ sq @ ''x'' @ sq @ dq @ sq @ dq @ sq @ '':}'' @ sq"
  by (simp add: quote_shell_arg_def replace_char_def sq_def dq_def)

lemma example_modules_path:
  "get_modules_path example_host
     = ''/etc/puppet/modules:/usr/share/puppet/modules:/opt/cloudify/puppet/modules:/home/ubuntu/cloudify/puppet/modules''"
  by (simp add: get_modules_path_def PUPPET_CONF_MODULE_PATH_def example_host_def os_path_join_def)

text \<open>
  With both an inline manifest text and a manifest path given, the command carries both
  the \<^verbatim>\<open>--execute\<close> form and the quoted manifest path.
\<close>

theorem standalone_cmd_both_counterexample:
  "standalone_get_runner_cmd example_host None (Some ''notify{'x':}'') (Some ''site.pp'')
     = Inr [''apply'', ''--modulepath='' @ get_modules_path example_host,
            ''--execute'', quote_shell_arg ''notify{'x':}'',
            quote_shell_arg ''/home/ubuntu/cloudify/puppet/site.pp'']
   \<and> ''--execute'' \<in> set [''apply'', ''--modulepath='' @ get_modules_path example_host,
            ''--execute'', quote_shell_arg ''notify{'x':}'',
            quote_shell_arg ''/home/ubuntu/cloudify/puppet/site.pp'']
   \<and> quote_shell_arg (os_path_join (local_repo example_host) ''site.pp'')
        \<in> set [''apply'', ''--modulepath='' @ get_modules_path example_host,
            ''--execute'', quote_shell_arg ''notify{'x':}'',
            quote_shell_arg ''/home/ubuntu/cloudify/puppet/site.pp'']"
  by (simp add: standalone_get_runner_cmd_def truthy_def get_or_def example_host_def
      os_path_join_def)

text \<open>
  C7, as amended: the standalone command is \<^verbatim>\<open>apply --modulepath=<path>\<close>, then
  \<^verbatim>\<open>--environment <env>\<close> when an environment is set, then \<^verbatim>\<open>--execute\<close> and the
  shell-quoted text when an inline text is given, then the quoted manifest path when a
  manifest is given (so at least one of the two forms, and both when both are given).
  For the text \<^verbatim>\<open>notify{'x':}\<close> and no manifest the command ends with \<^verbatim>\<open>--execute\<close> and
  the text with each single quote written as \<^verbatim>\<open>'"'"'\<close>, and has no manifest argument.
  With neither given, building the command raises the parameter error.
\<close>

theorem standalone_get_runner_cmd_build:
  "(\<not> truthy manifest \<longrightarrow>
      standalone_get_runner_cmd h env (Some ''notify{'x':}'') manifest
        = Inr ([''apply'', ''--modulepath='' @ get_modules_path h]
               @ (if truthy env then [''--environment'', get_or env []] else [])
               @ [''--execute'',
                  sq @ ''notify{'' @ sq @ dq @ sq @ dq @ sq @ ''x'' @ sq @ dq @ sq @ dq @ sq
                  @ '':}'' @ sq]))
   \<and> (truthy execute \<or> truthy manifest \<longrightarrow>
      standalone_get_runner_cmd h env execute manifest
        = Inr ([''apply'', ''--modulepath='' @ get_modules_path h]
               @ (if truthy env then [''--environment'', get_or env []] else [])
               @ (if truthy execute then [''--execute'', quote_shell_arg (get_or execute [])]
                  else [])
               @ (if truthy manifest
                  then [quote_shell_arg (os_path_join (local_repo h) (get_or manifest []))]
                  else [])))
   \<and> (\<not> truthy execute \<and> \<not> truthy manifest \<longrightarrow>
      (\<exists>msg. standalone_get_runner_cmd h env execute manifest = Inl (PuppetParamsError msg)))"
proof (intro conjI impI)
  assume "\<not> truthy manifest"
  then show "standalone_get_runner_cmd h env (Some ''notify{'x':}'') manifest
        = Inr ([''apply'', ''--modulepath='' @ get_modules_path h]
               @ (if truthy env then [''--environment'', get_or env []] else [])
               @ [''--execute'',
                  sq @ ''notify{'' @ sq @ dq @ sq @ dq @ sq @ ''x'' @ sq @ dq @ sq @ dq @ sq
                  @ '':}'' @ sq])"
    using quote_notify
    by (simp add: standalone_get_runner_cmd_def truthy_def get_or_def)
next
  assume "truthy execute \<or> truthy manifest"
  then show "standalone_get_runner_cmd h env execute manifest
        = Inr ([''apply'', ''--modulepath='' @ get_modules_path h]
               @ (if truthy env then [''--environment'', get_or env []] else [])
               @ (if truthy execute then [''--execute'', quote_shell_arg (get_or execute [])]
                  else [])
               @ (if truthy manifest
                  then [quote_shell_arg (os_path_join (local_repo h) (get_or manifest []))]
                  else []))"
    by (auto simp: standalone_get_runner_cmd_def Let_def)
next
  assume "\<not> truthy execute \<and> \<not> truthy manifest"
  then show "\<exists>msg. standalone_get_runner_cmd h env execute manifest = Inl (PuppetParamsError msg)"
    by (simp add: standalone_get_runner_cmd_def Let_def)
qed

theorem standalone_get_runner_cmd_build_witness:
  "\<not> truthy None
   \<and> standalone_get_runner_cmd example_host (Some ''prod1'') (Some ''notify{'x':}'') None
       = Inr [''apply'', ''--modulepath='' @ get_modules_path example_host,
              ''--environment'', ''prod1'', ''--execute'',
              sq @ ''notify{'' @ sq @ dq @ sq @ dq @ sq @ ''x'' @ sq @ dq @ sq @ dq @ sq
              @ '':}'' @ sq]
   \<and> truthy (Some ''site.pp'')
   \<and> standalone_get_runner_cmd example_host None None (Some ''site.pp'')
       = Inr [''apply'', ''--modulepath='' @ get_modules_path example_host,
              quote_shell_arg (os_path_join (local_repo example_host) ''site.pp'')]
   \<and> (\<exists>msg. standalone_get_runner_cmd example_host None None None
                = Inl (PuppetParamsError msg))"
proof -
  have t: "\<not> truthy None" "truthy (Some ''site.pp'')" "truthy (Some ''prod1'')"
    by (simp_all add: truthy_def)
  note a = standalone_get_runner_cmd_build [where h = example_host and env = "Some ''prod1''"
      and manifest = None and execute = None]
  note b = standalone_get_runner_cmd_build [where h = example_host and env = None
      and manifest = "Some ''site.pp''" and execute = None]
  note c = standalone_get_runner_cmd_build [where h = example_host and env = None
      and manifest = None and execute = None]
  have 1: "standalone_get_runner_cmd example_host (Some ''prod1'') (Some ''notify{'x':}'') None
       = Inr [''apply'', ''--modulepath='' @ get_modules_path example_host,
              ''--environment'', ''prod1'', ''--execute'',
              sq @ ''notify{'' @ sq @ dq @ sq @ dq @ sq @ ''x'' @ sq @ dq @ sq @ dq @ sq
              @ '':}'' @ sq]"
    using a t by (simp add: get_or_def)
  have 2: "standalone_get_runner_cmd example_host None None (Some ''site.pp'')
       = Inr [''apply'', ''--modulepath='' @ get_modules_path example_host,
              quote_shell_arg (os_path_join (local_repo example_host) ''site.pp'')]"
    using b t by (simp add: get_or_def)
  have 3: "\<exists>msg. standalone_get_runner_cmd example_host None None None
                = Inl (PuppetParamsError msg)"
    using c t by blast
  show ?thesis using t 1 2 3 by blast
qed

subsection \<open>The run\<close>



lemma run_body_fails_on_facts:
  "build_facts m = Inl err \<Longrightarrow> run_body h m tags execute manifest w = (Inl err, w)"
  by (simp add: run_body_def)

lemma run_body_fails_on_cmd:
  "build_facts m = Inr facts \<Longrightarrow> get_runner_cmd (runner m) h m execute manifest = Inl err \<Longrightarrow>
   run_body h m tags execute manifest w
     = (Inl err, write_temp (facts_file_name h m w) (FactsJson facts) w)"
  by (simp add: run_body_def Let_def facts_file_name_def)










subsection \<open>Facts\<close>




subsection \<open>Tags\<close>





subsection \<open>The agent's configuration file\<close>

lemma digit_in_digits: "d < 10 \<Longrightarrow> digit d \<in> set ''0123456789''"
proof -
  assume "d < 10"
  then have "d \<in> {0, 1, 2, 3, 4, 5, 6, 7, 8, 9}"
    by auto
  then show ?thesis
    by (auto simp: digit_def)
qed

lemma str_nat_digits: "c \<in> set (str_nat n) \<Longrightarrow> c \<in> set ''0123456789''"
proof (induction n rule: str_nat.induct)
  case (1 n)
  show ?case
  proof (cases "n < 10")
    case True
    with "1.prems" have "c = digit n"
      by (simp add: str_nat.simps [of n])
    with True show ?thesis
      using digit_in_digits by blast
  next
    case False
    with "1.prems" have "c \<in> set (str_nat (n div 10)) \<or> c = digit (n mod 10)"
      by (auto simp: str_nat.simps [of n])
    then show ?thesis
    proof
      assume "c \<in> set (str_nat (n div 10))"
      with "1.IH" False show ?thesis by blast
    next
      assume "c = digit (n mod 10)"
      then show ?thesis
        using digit_in_digits [of "n mod 10"] by simp
    qed
  qed
qed

lemma str_nat_length: "0 < k \<Longrightarrow> n < 10 ^ k \<Longrightarrow> length (str_nat n) \<le> k"
proof (induction n arbitrary: k rule: str_nat.induct)
  case (1 n)
  show ?case
  proof (cases "n < 10")
    case True
    then have "length (str_nat n) = 1"
      by (simp add: str_nat.simps [of n])
    with "1.prems" show ?thesis by simp
  next
    case False
    obtain j where k: "k = Suc j"
      using "1.prems"(1) by (cases k) auto
    have "0 < j"
      using False "1.prems"(2) k by (cases j) auto
    moreover have "n div 10 < 10 ^ j"
      using "1.prems"(2) k by (simp add: less_mult_imp_div_less mult.commute)
    ultimately have "length (str_nat (n div 10)) \<le> j"
      using "1.IH" False by blast
    moreover have "length (str_nat n) = Suc (length (str_nat (n div 10)))"
      using False by (simp add: str_nat.simps [of n])
    ultimately show ?thesis
      using k by simp
  qed
qed

lemma zpad_length: "0 < k \<Longrightarrow> n < 10 ^ k \<Longrightarrow> length (zpad k n) = k"
  using str_nat_length [of k n] by (simp add: zpad_def)

lemma zpad_digits: "c \<in> set (zpad k n) \<Longrightarrow> c \<in> set ''0123456789''"
  using str_nat_digits [of c n] by (auto simp: zpad_def)

lemma strftime_valid:
  assumes "valid_datetime d"
  shows "\<exists>stamp. strftime_YmdHM d = Inr stamp \<and> length stamp = 12
           \<and> (\<forall>c \<in> set stamp. c \<in> set ''0123456789'')"
proof -
  let ?s = "zpad 4 (dt_year d) @ zpad 2 (dt_month d) @ zpad 2 (dt_day d)
            @ zpad 2 (dt_hour d) @ zpad 2 (dt_minute d)"
  have s: "strftime_YmdHM d = Inr ?s"
    using assms by (simp add: strftime_YmdHM_def valid_datetime_def)
  have "length (zpad 4 (dt_year d)) = 4" "length (zpad 2 (dt_month d)) = 2"
    "length (zpad 2 (dt_day d)) = 2" "length (zpad 2 (dt_hour d)) = 2"
    "length (zpad 2 (dt_minute d)) = 2"
    using assms by (simp_all add: zpad_length valid_datetime_def)
  then have l: "length ?s = 12"
    by simp
  have g: "\<forall>c \<in> set ?s. c \<in> set ''0123456789''"
    using zpad_digits by (auto simp del: set_simps)
  show ?thesis
    using s l g by blast
qed

lemma example_installer: "get_installer_class (linux_distribution example_host) = Inr PuppetDebianInstaller"
  by (simp add: get_installer_class_def example_host_def lower_def lower_char_def)

text \<open>
  With \<^verbatim>\<open>environment: "Prod-1"\<close> and a \<^verbatim>\<open>server\<close> the agent runner is selected, and the
  construction of the orchestrator raises the parameter error: the normalised name is
  \<^verbatim>\<open>Prod_1\<close>, not \<^verbatim>\<open>prod_1\<close>, and it is not accepted.
\<close>

theorem agent_prod_1_counterexample:
  "get_runner_class (example_ctx (agent_config ''Prod-1'')) = PuppetAgentRunner
   \<and> PuppetManager_new example_host (example_ctx (agent_config ''Prod-1''))
       = Inl (PuppetParamsError
               (''puppet_config.environment must contain only alphanumeric characters, you gave ''
                @ sq @ ''Prod_1'' @ sq))"
proof -
  have r: "get_runner_class (example_ctx (agent_config ''Prod-1'')) = PuppetAgentRunner"
    by (simp add: get_runner_class_def example_ctx_def agent_config_def)
  have e: "set_environment ''Prod-1''
       = Inl (PuppetParamsError
               (''puppet_config.environment must contain only alphanumeric characters, you gave ''
                @ sq @ ''Prod_1'' @ sq))"
    by (simp add: set_environment_def re_sub_env_def PUPPET_ENV_RE_match_def env_char_def)
  have p: "cfg_environment (puppet_config (example_ctx (agent_config ''Prod-1''))) = Some ''Prod-1''"
    by (simp add: example_ctx_def agent_config_def)
  show ?thesis
    using r example_installer e p by (simp add: PuppetManager_new_def)
qed

lemma config_contents:
  assumes "strftime_YmdHM (utcnow h) = Inr stamp" and "cfg_server (props m) = Some server"
  shows "get_config_file_contents h m =
     Inr ((''# This file was generated by Cloudify'' @ nl @
           ''[main]'' @ nl @
           ''    ssldir = /var/lib/puppet/ssl'' @ nl)
          @ (''    environment = '' @ get_or (environment m) ''None'' @ nl)
          @ (''    pluginsync = true'' @ nl @
             ''    logdir = /var/log/puppet'' @ nl @
             ''    vardir = /var/lib/puppet'' @ nl @
             ''    classfile = $vardir/classes.txt'' @ nl @
             ''    factpath = /opt/cloudify/puppet/facts:$vardir/lib/facter:$vardir/facts'' @ nl @
             ''    modulepath = '' @ get_modules_path h @ nl @ nl @
             ''[agent]'' @ nl @
             ''    server = '' @ server @ nl)
          @ (''    certname = '' @ stamp @ ''-'' @ agent_node_name m @ nl)
          @ (''    node_name_value = '' @ agent_node_name m @ nl))"
  using assms
  by (simp add: get_config_file_contents_def Let_def format_tpl_def PUPPET_CONF_TPL_def)

lemma config_contents_lines:
  assumes "strftime_YmdHM (utcnow h) = Inr stamp" and "cfg_server (props m) = Some server"
    and "get_config_file_contents h m = Inr conf"
  shows "sublist (''    environment = '' @ get_or (environment m) ''None'' @ nl) conf"
    and "sublist (''    certname = '' @ stamp @ ''-'' @ agent_node_name m @ nl) conf"
proof -
  note c = config_contents [OF assms(1,2)]
  from c assms(3)
  have e: "conf = (''# This file was generated by Cloudify'' @ nl @
           ''[main]'' @ nl @
           ''    ssldir = /var/lib/puppet/ssl'' @ nl)
          @ (''    environment = '' @ get_or (environment m) ''None'' @ nl)
          @ ((''    pluginsync = true'' @ nl @
             ''    logdir = /var/log/puppet'' @ nl @
             ''    vardir = /var/lib/puppet'' @ nl @
             ''    classfile = $vardir/classes.txt'' @ nl @
             ''    factpath = /opt/cloudify/puppet/facts:$vardir/lib/facter:$vardir/facts'' @ nl @
             ''    modulepath = '' @ get_modules_path h @ nl @ nl @
             ''[agent]'' @ nl @
             ''    server = '' @ server @ nl)
          @ (''    certname = '' @ stamp @ ''-'' @ agent_node_name m @ nl)
          @ (''    node_name_value = '' @ agent_node_name m @ nl))"
    by simp
  show "sublist (''    environment = '' @ get_or (environment m) ''None'' @ nl) conf"
    by (subst e) (rule sublist_appendI)
  from c assms(3)
  have f: "conf = ((''# This file was generated by Cloudify'' @ nl @
           ''[main]'' @ nl @
           ''    ssldir = /var/lib/puppet/ssl'' @ nl)
          @ (''    environment = '' @ get_or (environment m) ''None'' @ nl)
          @ (''    pluginsync = true'' @ nl @
             ''    logdir = /var/log/puppet'' @ nl @
             ''    vardir = /var/lib/puppet'' @ nl @
             ''    classfile = $vardir/classes.txt'' @ nl @
             ''    factpath = /opt/cloudify/puppet/facts:$vardir/lib/facter:$vardir/facts'' @ nl @
             ''    modulepath = '' @ get_modules_path h @ nl @ nl @
             ''[agent]'' @ nl @
             ''    server = '' @ server @ nl))
          @ (''    certname = '' @ stamp @ ''-'' @ agent_node_name m @ nl)
          @ (''    node_name_value = '' @ agent_node_name m @ nl)"
    by simp
  show "sublist (''    certname = '' @ stamp @ ''-'' @ agent_node_name m @ nl) conf"
    by (subst f) (rule sublist_appendI)
qed

lemma agent_configure_writes:
  assumes "get_config_file_contents h m = Inr conf"
    and "sudo_status h [''mv'', temp_name h w ''tmp'' [], ''/etc/puppet/puppet.conf''] = 0"
  shows "fst (configure PuppetAgentRunner h m w) = Inr ()"
    and "fs (snd (configure PuppetAgentRunner h m w)) ''/etc/puppet/puppet.conf'' = Some (Text conf)"
  using assms
  by (simp_all add: agent_configure_def sudo_write_file_def Let_def sudo_def sudo_result_def
      write_temp_def)

text \<open>
  C5, as amended: a configuration with a \<^verbatim>\<open>server\<close> and an environment that
  \<open>set_environment\<close> accepts (a name is not lower-cased), on the node \<^verbatim>\<open>web-3\<close> with no
  node-name prefix or suffix, selects the agent runner; its configuration file has the
  line \<^verbatim>\<open>environment = <env>\<close> with the accepted name and the line
  \<^verbatim>\<open>certname = <stamp>-web-3\<close> where the stamp is the clock's twelve digits
  (\<^verbatim>\<open>YYYYMMDDHHMM\<close>), and \<open>configure\<close> puts this text in \<^verbatim>\<open>/etc/puppet/puppet.conf\<close>
  when the privileged move succeeds.
\<close>

theorem agent_config_file:
  assumes "cfg_server (puppet_config c) = Some server"
    and "cfg_environment (puppet_config c) = Some e"
    and "set_environment e = Inr env"
    and "cfg_node_name_prefix (puppet_config c) = None"
    and "cfg_node_name_suffix (puppet_config c) = None"
    and "node_id c = ''web-3''"
    and "get_installer_class (linux_distribution h) = Inr i"
    and "valid_datetime (utcnow h)"
  shows "get_runner_class c = PuppetAgentRunner
       \<and> (\<exists>m stamp conf.
             PuppetManager_new h c = Inr m
             \<and> runner m = PuppetAgentRunner
             \<and> environment m = Some env
             \<and> strftime_YmdHM (utcnow h) = Inr stamp
             \<and> length stamp = 12
             \<and> (\<forall>ch \<in> set stamp. ch \<in> set ''0123456789'')
             \<and> get_config_file_contents h m = Inr conf
             \<and> sublist (''    environment = '' @ env @ nl) conf
             \<and> sublist (''    certname = '' @ stamp @ ''-web-3'' @ nl) conf
             \<and> (sudo_status h [''mv'', temp_name h w ''tmp'' [], ''/etc/puppet/puppet.conf''] = 0
                  \<longrightarrow> fst (configure (runner m) h m w) = Inr ()
                      \<and> fs (snd (configure (runner m) h m w)) ''/etc/puppet/puppet.conf''
                          = Some (Text conf)))"
proof -
  let ?m = "\<lparr>runner = PuppetAgentRunner, installer = i, props = puppet_config c,
             environment = Some env, mctx = c\<rparr>"
  have r: "get_runner_class c = PuppetAgentRunner"
    using assms(1) by (simp add: get_runner_class_def)
  have n: "PuppetManager_new h c = Inr ?m"
    using r assms(2,3,7) by (simp add: PuppetManager_new_def)
  obtain stamp where s: "strftime_YmdHM (utcnow h) = Inr stamp"
    and l: "length stamp = 12"
    and d: "\<forall>ch \<in> set stamp. ch \<in> set ''0123456789''"
    using strftime_valid [OF assms(8)] by (elim exE conjE) (rule that)
  have srv: "cfg_server (props ?m) = Some server"
    using assms(1) by simp
  obtain conf where cf: "get_config_file_contents h ?m = Inr conf"
    using config_contents [OF s srv] by (rule that)
  have nn: "agent_node_name ?m = ''web-3''"
    using assms(4,5,6) by (simp add: agent_node_name_def get_or_def)
  have l1: "sublist (''    environment = '' @ env @ nl) conf"
    using config_contents_lines(1) [OF s srv cf] by (simp add: get_or_def)
  have l2: "sublist (''    certname = '' @ stamp @ ''-web-3'' @ nl) conf"
    using config_contents_lines(2) [OF s srv cf] by (simp add: nn)
  have w: "sudo_status h [''mv'', temp_name h w ''tmp'' [], ''/etc/puppet/puppet.conf''] = 0
           \<longrightarrow> fst (configure (runner ?m) h ?m w) = Inr ()
               \<and> fs (snd (configure (runner ?m) h ?m w)) ''/etc/puppet/puppet.conf''
                   = Some (Text conf)"
    using agent_configure_writes [OF cf] by simp
  have H: "PuppetManager_new h c = Inr ?m
             \<and> runner ?m = PuppetAgentRunner
             \<and> environment ?m = Some env
             \<and> strftime_YmdHM (utcnow h) = Inr stamp
             \<and> length stamp = 12
             \<and> (\<forall>ch \<in> set stamp. ch \<in> set ''0123456789'')
             \<and> get_config_file_contents h ?m = Inr conf
             \<and> sublist (''    environment = '' @ env @ nl) conf
             \<and> sublist (''    certname = '' @ stamp @ ''-web-3'' @ nl) conf
             \<and> (sudo_status h [''mv'', temp_name h w ''tmp'' [], ''/etc/puppet/puppet.conf''] = 0
                  \<longrightarrow> fst (configure (runner ?m) h ?m w) = Inr ()
                      \<and> fs (snd (configure (runner ?m) h ?m w)) ''/etc/puppet/puppet.conf''
                          = Some (Text conf))"
    using n s l d cf l1 l2 w by simp
  show ?thesis
    by (rule conjI, rule r, rule exI [of _ ?m], rule exI [of _ stamp], rule exI [of _ conf],
        rule H)
qed

theorem agent_config_file_witness:
  "get_runner_class (example_ctx (agent_config ''prod1'')) = PuppetAgentRunner
   \<and> (\<exists>m conf.
         PuppetManager_new example_host (example_ctx (agent_config ''prod1'')) = Inr m
         \<and> runner m = PuppetAgentRunner
         \<and> get_config_file_contents example_host m = Inr conf
         \<and> sublist (''    environment = prod1'' @ nl) conf
         \<and> sublist (''    certname = 201405070930-web-3'' @ nl) conf
         \<and> fs (snd (configure (runner m) example_host m empty_world)) ''/etc/puppet/puppet.conf''
             = Some (Text conf))"
proof -
  let ?c = "example_ctx (agent_config ''prod1'')"
  have a: "cfg_server (puppet_config ?c) = Some ''puppetmaster.example''"
    "cfg_environment (puppet_config ?c) = Some ''prod1''"
    "cfg_node_name_prefix (puppet_config ?c) = None"
    "cfg_node_name_suffix (puppet_config ?c) = None"
    "node_id ?c = ''web-3''"
    by (simp_all add: example_ctx_def agent_config_def empty_config_def)
  have e: "set_environment ''prod1'' = Inr ''prod1''"
    by (simp add: set_environment_def re_sub_env_def PUPPET_ENV_RE_match_def env_char_def)
  have v: "valid_datetime (utcnow example_host)"
    by (simp add: valid_datetime_def example_host_def)
  have st: "strftime_YmdHM (utcnow example_host) = Inr ''201405070930''"
    by (simp add: strftime_YmdHM_def zpad_def str_nat.simps digit_def example_host_def)
  have mv: "sudo_status example_host
              [''mv'', temp_name example_host empty_world ''tmp'' [], ''/etc/puppet/puppet.conf''] = 0"
    by (simp add: example_host_def)
  note t = agent_config_file [OF a(1) a(2) e a(3) a(4) a(5) example_installer v,
      where w = empty_world]
  from t obtain m stamp conf where
    m: "PuppetManager_new example_host ?c = Inr m"
      "runner m = PuppetAgentRunner"
      "strftime_YmdHM (utcnow example_host) = Inr stamp"
      "get_config_file_contents example_host m = Inr conf"
      "sublist (''    environment = '' @ ''prod1'' @ nl) conf"
      "sublist (''    certname = '' @ stamp @ ''-web-3'' @ nl) conf"
      "sudo_status example_host
         [''mv'', temp_name example_host empty_world ''tmp'' [], ''/etc/puppet/puppet.conf''] = 0
       \<longrightarrow> fst (configure (runner m) example_host m empty_world) = Inr ()
           \<and> fs (snd (configure (runner m) example_host m empty_world)) ''/etc/puppet/puppet.conf''
               = Some (Text conf)"
    by (elim exE conjE) (rule that)
  have stamp: "stamp = ''201405070930''"
    using m(3) st by simp
  have 1: "sublist (''    environment = prod1'' @ nl) conf"
    using m(5) by simp
  have 2: "sublist (''    certname = 201405070930-web-3'' @ nl) conf"
    using m(6) stamp by simp
  have 3: "fs (snd (configure (runner m) example_host m empty_world)) ''/etc/puppet/puppet.conf''
             = Some (Text conf)"
    using m(7) mv by (rule_tac conjunct2) (erule mp)
  have H: "PuppetManager_new example_host ?c = Inr m
         \<and> runner m = PuppetAgentRunner
         \<and> get_config_file_contents example_host m = Inr conf
         \<and> sublist (''    environment = prod1'' @ nl) conf
         \<and> sublist (''    certname = 201405070930-web-3'' @ nl) conf
         \<and> fs (snd (configure (runner m) example_host m empty_world)) ''/etc/puppet/puppet.conf''
             = Some (Text conf)"
    using m(1,2,4) 1 2 3 by simp
  show ?thesis
    by (rule conjI, rule t [THEN conjunct1], rule exI [of _ m], rule exI [of _ conf], rule H)
qed

end
